theory Spec2Isabelle
  imports Complex_Main
begin

section \<open>The adiabatic-theorem notebook: data model\<close>

text \<open>
  The notebook \<^verbatim>\<open>adiabatic_theorem.ipynb\<close> works on numpy arrays of double precision
  numbers. The embedding idealises a float as a \<^typ>\<open>real\<close> and a complex float as a
  \<^typ>\<open>complex\<close>: every statement below is one of exact arithmetic; rounding, infinities
  and NaN are outside the model.

  Every matrix of the notebook has shape (2, 2): \<^verbatim>\<open>np.random.randn(2, 2)\<close>, the
  eigenvectors of such a matrix, and the results of \<^verbatim>\<open>reshape((2,2))\<close>. A matrix is a
  value of \<open>'a mat2\<close>, its four entries in row-major order; a one-dimensional array is a
  list.
\<close>

datatype 'a mat2 = Mat2 (m00: 'a) (m01: 'a) (m10: 'a) (m11: 'a)

text \<open>The exceptions of Python that the notebook's code can raise.\<close>

datatype error = NameError | ZeroDivisionError | ValueError | IndexError

text \<open>Sequencing of computations that may raise.\<close>

definition bind_result :: "error + 'a \<Rightarrow> ('a \<Rightarrow> error + 'b) \<Rightarrow> error + 'b" where
  "bind_result r k = (case r of Inl e \<Rightarrow> Inl e | Inr v \<Rightarrow> k v)"

subsection \<open>numpy operations on 2 x 2 matrices\<close>

text \<open>\<^verbatim>\<open>M.flatten()\<close>: the entries in row-major order.\<close>

fun flatten :: "'a mat2 \<Rightarrow> 'a list" where
  "flatten (Mat2 a b c d) = [a, b, c, d]"

text \<open>\<^verbatim>\<open>v.reshape((2,2))\<close>: numpy raises ValueError unless \<open>v\<close> has four entries.\<close>

fun reshape22 :: "'a list \<Rightarrow> error + 'a mat2" where
  "reshape22 [a, b, c, d] = Inr (Mat2 a b c d)"
| "reshape22 _ = Inl ValueError"

text \<open>\<^verbatim>\<open>M[i][j]\<close> for a row index and a column index inside the shape.\<close>

fun entry :: "'a mat2 \<Rightarrow> nat \<Rightarrow> nat \<Rightarrow> 'a" where
  "entry (Mat2 a b c d) i j =
     (if i = 0 then (if j = 0 then a else b) else (if j = 0 then c else d))"

fun map_mat2 :: "('a \<Rightarrow> 'b) \<Rightarrow> 'a mat2 \<Rightarrow> 'b mat2" where
  "map_mat2 f (Mat2 a b c d) = Mat2 (f a) (f b) (f c) (f d)"

text \<open>\<^verbatim>\<open>X + Y\<close>, \<^verbatim>\<open>s * X\<close> and \<^verbatim>\<open>X / s\<close>, entry by entry.\<close>

fun mat_add :: "complex mat2 \<Rightarrow> complex mat2 \<Rightarrow> complex mat2" where
  "mat_add (Mat2 a b c d) (Mat2 a' b' c' d') = Mat2 (a + a') (b + b') (c + c') (d + d')"

definition scalar_mul :: "complex \<Rightarrow> complex mat2 \<Rightarrow> complex mat2" where
  "scalar_mul s X = map_mat2 (\<lambda>x. s * x) X"

definition scalar_div :: "complex mat2 \<Rightarrow> complex \<Rightarrow> complex mat2" where
  "scalar_div X s = map_mat2 (\<lambda>x. x / s) X"

text \<open>\<^verbatim>\<open>X.conj()\<close> (also \<^verbatim>\<open>np.conj(X)\<close>), \<^verbatim>\<open>X.T\<close> and the matrix product \<^verbatim>\<open>X @ Y\<close>.\<close>

definition conj_mat :: "complex mat2 \<Rightarrow> complex mat2" where
  "conj_mat X = map_mat2 cnj X"

fun transpose_mat :: "'a mat2 \<Rightarrow> 'a mat2" where
  "transpose_mat (Mat2 a b c d) = Mat2 a c b d"

fun matmul :: "complex mat2 \<Rightarrow> complex mat2 \<Rightarrow> complex mat2" where
  "matmul (Mat2 a b c d) (Mat2 a' b' c' d') =
     Mat2 (a * a' + b * c') (a * b' + b * d') (c * a' + d * c') (c * b' + d * d')"

section \<open>The encoding layer\<close>

text \<open>
  \<^verbatim>\<open>def complex_to_real_imag(x):
    return np.concatenate((np.real(x), np.imag(x)))\<close>
\<close>

definition complex_to_real_imag :: "complex list \<Rightarrow> real list" where
  "complex_to_real_imag x = map Re x @ map Im x"

text \<open>
  \<^verbatim>\<open>def real_imag_to_complex(real_imag):
    n_half = int(len(real_imag)/2)
    return real_imag[:n_half] + 1.j * real_imag[n_half:]\<close>

  The sum is numpy's sum of two arrays. For an input of even length the two slices have
  the same length. For one of odd length the second slice is one longer: numpy broadcasts
  a slice of length one (lengths 0 and 1 give the empty array, lengths 1 and 2 an array of
  length 2) and raises ValueError for every other pair of lengths.
\<close>

definition np_add_scaled :: "real list \<Rightarrow> real list \<Rightarrow> error + complex list" where
  "np_add_scaled re_half im_half =
     (if length re_half = length im_half then
        Inr (map (\<lambda>(r, i). complex_of_real r + \<i> * complex_of_real i) (zip re_half im_half))
      else if length im_half = 1 then
        Inr (map (\<lambda>r. complex_of_real r + \<i> * complex_of_real (hd im_half)) re_half)
      else if length re_half = 1 then
        Inr (map (\<lambda>i. complex_of_real (hd re_half) + \<i> * complex_of_real i) im_half)
      else Inl ValueError)"

definition real_imag_to_complex :: "real list \<Rightarrow> error + complex list" where
  "real_imag_to_complex real_imag =
     (let n_half = length real_imag div 2
      in np_add_scaled (take n_half real_imag) (drop n_half real_imag))"

text \<open>
  \<^verbatim>\<open>def matrix_to_flat(matrix):
    return complex_to_real_imag(matrix.flatten())
def flat_to_matrix(flattened):
    return (real_imag_to_complex(flattened)).reshape((2,2))\<close>
\<close>

definition matrix_to_flat :: "complex mat2 \<Rightarrow> real list" where
  "matrix_to_flat matrix = complex_to_real_imag (flatten matrix)"

definition flat_to_matrix :: "real list \<Rightarrow> error + complex mat2" where
  "flat_to_matrix flattened = bind_result (real_imag_to_complex flattened) reshape22"

section \<open>Sampling, the interpolator and the module's global names\<close>

text \<open>
  \<^verbatim>\<open>def sample_hermitian_matrix():
    real_part = np.random.randn(2, 2)
    imag_part = np.random.randn(2, 2)
    matrix = real_part + 1j * imag_part
    hermitian_matrix = (matrix + matrix.conj().T) / 2
    return hermitian_matrix\<close>

  The random source is the function's only input: the two matrices drawn by
  \<^verbatim>\<open>np.random.randn(2, 2)\<close> are the arguments of the model. Their distribution belongs
  to numpy and is not modelled; every real matrix is a possible draw.
\<close>

definition sample_hermitian_matrix :: "real mat2 \<Rightarrow> real mat2 \<Rightarrow> complex mat2" where
  "sample_hermitian_matrix real_part imag_part =
     (let matrix = mat_add (map_mat2 complex_of_real real_part)
                     (scalar_mul \<i> (map_mat2 complex_of_real imag_part));
          hermitian_matrix = scalar_div (mat_add matrix (transpose_mat (conj_mat matrix))) 2
      in hermitian_matrix)"

text \<open>
  The notebook keeps its data in module-level names. \<open>T\<close> is bound only by the loops
  (\<^verbatim>\<open>for T in T_list\<close>, \<^verbatim>\<open>T = T_list[j]\<close>), after \<open>H\<close>, which reads it, has been defined:
  it is the one name that may be unbound when read. The names assigned by a later cell
  (\<open>U_A_flat\<close>, the two lists of the analysis) hold the empty list until then; no code
  reads them before their assignment. The field of a global name carries the prefix
  \<open>glob_\<close>.
\<close>

record globals =
  glob_A :: "complex mat2"
  glob_B :: "complex mat2"
  glob_U_A :: "complex mat2"
  glob_T :: "real option"
  glob_T_list :: "real list"
  glob_U_T_list :: "complex mat2 list"
  glob_U_A_flat :: "real list"
  glob_approx_B_diag_list :: "complex mat2 list"
  glob_off_diag_elements_of_approx_B_list :: "real list"

text \<open>
  \<^verbatim>\<open>def H(t):
    return (1 - t/T) * A + (t/T) * B\<close>

  \<open>H\<close> reads the globals \<open>T\<close>, \<open>A\<close> and \<open>B\<close> when it is called. An unbound \<open>T\<close> is a
  NameError. The entries of \<open>T_list\<close> are Python floats and the division is the one of
  Python floats: it raises ZeroDivisionError for \<open>T = 0\<close>.
\<close>

definition H :: "globals \<Rightarrow> real \<Rightarrow> error + complex mat2" where
  "H g t =
     (case glob_T g of
        None \<Rightarrow> Inl NameError
      | Some T \<Rightarrow>
          if T = 0 then Inl ZeroDivisionError
          else Inr (mat_add (scalar_mul (complex_of_real (1 - t / T)) (glob_A g))
                            (scalar_mul (complex_of_real (t / T)) (glob_B g))))"

text \<open>\<^verbatim>\<open>T_list = [10**(-1 + j * .25) for j in range(18)]\<close>\<close>

definition T_list :: "real list" where
  "T_list = map (\<lambda>j. 10 powr (- 1 + real j * 0.25)) [0..<18]"

text \<open>
  The state after the second and third cell: \<open>A\<close> and \<open>B\<close> sampled, \<open>U_A\<close> the second
  component of \<^verbatim>\<open>np.linalg.eigh(A)\<close> (numpy's, a parameter of the model), \<open>T_list\<close> built and
  \<open>U_T_list\<close> empty.
\<close>

definition startup ::
  "(complex mat2 \<Rightarrow> complex mat2) \<Rightarrow> real mat2 \<Rightarrow> real mat2 \<Rightarrow> real mat2 \<Rightarrow> real mat2 \<Rightarrow> globals"
where
  "startup eigh_vectors re_A im_A re_B im_B =
     (let A = sample_hermitian_matrix re_A im_A;
          B = sample_hermitian_matrix re_B im_B
      in \<lparr>glob_A = A, glob_B = B, glob_U_A = eigh_vectors A, glob_T = None,
          glob_T_list = T_list, glob_U_T_list = [], glob_U_A_flat = [],
          glob_approx_B_diag_list = [], glob_off_diag_elements_of_approx_B_list = []\<rparr>)"

section \<open>The sweep over the total times\<close>

text \<open>
  \<^verbatim>\<open>def matrix_differential_equation(t, U_flat, H_func):
    U = flat_to_matrix(U_flat)
    dUdt = -1.j * H_func(t) @ U
    return matrix_to_flat(dUdt)\<close>

  \<^verbatim>\<open>*\<close> and \<^verbatim>\<open>@\<close> have the same precedence and associate to the left.
\<close>

definition matrix_differential_equation ::
  "real \<Rightarrow> real list \<Rightarrow> (real \<Rightarrow> error + complex mat2) \<Rightarrow> error + real list" where
  "matrix_differential_equation t U_flat H_func =
     bind_result (flat_to_matrix U_flat) (\<lambda>U.
     bind_result (H_func t) (\<lambda>H_t.
       let dUdt = matmul (scalar_mul (- \<i>) H_t) U
       in Inr (matrix_to_flat dUdt)))"

text \<open>
  \<^verbatim>\<open>np.linspace(start, stop, num)\<close>: \<open>num\<close> equally spaced points, the first \<open>start\<close> and
  the last \<open>stop\<close>.
\<close>

definition linspace :: "real \<Rightarrow> real \<Rightarrow> nat \<Rightarrow> real list" where
  "linspace start stop num =
     map (\<lambda>i. start + real i * ((stop - start) / real (num - 1))) [0..<num]"

text \<open>
  \<^verbatim>\<open>scipy.integrate.solve_ivp\<close> is not part of the notebook. The model takes it as a
  parameter: any function of the right-hand side, the time span, the initial state and
  the evaluation grid, which raises or returns a result object. Of the result the model
  keeps the array \<open>y\<close> (one row for each component of the state, one column for each
  time reported) and the flag \<open>success\<close>.
\<close>

record ode_result =
  sol_success :: bool
  sol_y :: "real list list"

type_synonym rhs = "real \<Rightarrow> real list \<Rightarrow> error + real list"

type_synonym solver = "rhs \<Rightarrow> real \<times> real \<Rightarrow> real list \<Rightarrow> real list \<Rightarrow> error + ode_result"

text \<open>
  \<^verbatim>\<open>xs[i]\<close> for a natural number \<open>i\<close>, and the list comprehension \<^verbatim>\<open>[f(i) for i in js]\<close>
  for an \<open>f\<close> that may raise.
\<close>

definition index :: "'a list \<Rightarrow> nat \<Rightarrow> error + 'a" where
  "index xs i = (if i < length xs then Inr (xs ! i) else Inl IndexError)"

fun comprehension :: "('i \<Rightarrow> error + 'a) \<Rightarrow> 'i list \<Rightarrow> error + 'a list" where
  "comprehension f [] = Inr []"
| "comprehension f (i # js) =
     bind_result (f i) (\<lambda>v. bind_result (comprehension f js) (\<lambda>vs. Inr (v # vs)))"

text \<open>A \<^verbatim>\<open>for\<close> loop over a list whose body may raise: the first exception ends the run.\<close>

fun for_loop :: "('s \<Rightarrow> 'a \<Rightarrow> error + 's) \<Rightarrow> 's \<Rightarrow> 'a list \<Rightarrow> error + 's" where
  "for_loop body s [] = Inr s"
| "for_loop body s (x # xs) = bind_result (body s x) (\<lambda>s'. for_loop body s' xs)"

definition num_values :: nat where
  "num_values = 100"

text \<open>
  The function handed to the solver is \<open>matrix_differential_equation\<close> with \<open>H\<close> as its
  third argument (\<^verbatim>\<open>args=(H,)\<close>); \<open>H\<close> reads the globals of the moment of the call.
\<close>

definition sweep_rhs :: "globals \<Rightarrow> rhs" where
  "sweep_rhs g = (\<lambda>t U_flat. matrix_differential_equation t U_flat (H g))"

text \<open>
  \<^verbatim>\<open>U_T_flat = np.array([solution.y[i][num_values] for i in range(8)])
U_T = real_imag_to_complex(U_T_flat).reshape((2,2))\<close>
\<close>

definition terminal_matrix :: "ode_result \<Rightarrow> error + complex mat2" where
  "terminal_matrix solution =
     bind_result
       (comprehension
          (\<lambda>i. bind_result (index (sol_y solution) i) (\<lambda>row. index row num_values))
          [0..<8])
       (\<lambda>U_T_flat. bind_result (real_imag_to_complex U_T_flat) reshape22)"

text \<open>
  \<^verbatim>\<open>for T in T_list:
    t_span = (0, T)
    num_values = 100
    t_list = np.linspace(0, T, num_values + 1)
    solution = solve_ivp(matrix_differential_equation, t_span, U_A_flat,
                         args=(H,), t_eval=t_list)
    U_T_flat = ...
    U_T = ...
    U_T_list.append(U_T)\<close>
\<close>

definition sweep_body :: "solver \<Rightarrow> globals \<Rightarrow> real \<Rightarrow> error + globals" where
  "sweep_body solve_ivp g0 T =
     (let g = g0\<lparr>glob_T := Some T\<rparr>;
          t_span = (0, T);
          t_list = linspace 0 T (num_values + 1)
      in bind_result (solve_ivp (sweep_rhs g) t_span (glob_U_A_flat g) t_list) (\<lambda>solution.
         bind_result (terminal_matrix solution) (\<lambda>U_T.
           Inr (g\<lparr>glob_U_T_list := glob_U_T_list g @ [U_T]\<rparr>))))"

definition sweep_loop :: "solver \<Rightarrow> globals \<Rightarrow> real list \<Rightarrow> error + globals" where
  "sweep_loop solve_ivp g Ts = for_loop (sweep_body solve_ivp) g Ts"

text \<open>The fourth cell: \<^verbatim>\<open>U_A_flat = matrix_to_flat(U_A)\<close>, then the loop over \<open>T_list\<close>.\<close>

definition sweep_cell :: "solver \<Rightarrow> globals \<Rightarrow> error + globals" where
  "sweep_cell solve_ivp g0 =
     (let g = g0\<lparr>glob_U_A_flat := matrix_to_flat (glob_U_A g0)\<rparr>
      in sweep_loop solve_ivp g (glob_T_list g))"

section \<open>The deviation analysis\<close>

text \<open>
  \<^verbatim>\<open>approx_B_diag_list = []
off_diag_elements_of_approx_B_list = []
for j in range (len(T_list)):
    T = T_list[j]
    U_T = U_T_list[j]
    approx_B_diag = np.conj(U_T.T) @ B @ U_T
    approx_B_diag_list.append(approx_B_diag)
    off_diag_elements_of_approx_B_list.append(np.absolute(approx_B_diag[0][1]))\<close>
\<close>

definition analysis_body :: "globals \<Rightarrow> nat \<Rightarrow> error + globals" where
  "analysis_body g0 j =
     bind_result (index (glob_T_list g0) j) (\<lambda>T.
       let g = g0\<lparr>glob_T := Some T\<rparr>
       in bind_result (index (glob_U_T_list g) j) (\<lambda>U_T.
            let approx_B_diag = matmul (matmul (conj_mat (transpose_mat U_T)) (glob_B g)) U_T
            in Inr (g\<lparr>glob_approx_B_diag_list := glob_approx_B_diag_list g @ [approx_B_diag],
                      glob_off_diag_elements_of_approx_B_list :=
                        glob_off_diag_elements_of_approx_B_list g
                          @ [cmod (entry approx_B_diag 0 1)]\<rparr>)))"

definition analysis_cell :: "globals \<Rightarrow> error + globals" where
  "analysis_cell g0 =
     (let g = g0\<lparr>glob_approx_B_diag_list := [],
                 glob_off_diag_elements_of_approx_B_list := []\<rparr>
      in for_loop analysis_body g [0..<length (glob_T_list g)])"

text \<open>The notebook from its second cell to the analysis.\<close>

definition notebook ::
  "solver \<Rightarrow> (complex mat2 \<Rightarrow> complex mat2) \<Rightarrow> real mat2 \<Rightarrow> real mat2 \<Rightarrow> real mat2 \<Rightarrow> real mat2
     \<Rightarrow> error + globals" where
  "notebook solve_ivp eigh_vectors re_A im_A re_B im_B =
     bind_result (sweep_cell solve_ivp (startup eigh_vectors re_A im_A re_B im_B))
       analysis_cell"

section \<open>Notions of the specification\<close>

text \<open>
  The conjugate transpose: the entry (i, j) of \<open>M\<^sup>\<dagger>\<close> is the conjugate of the entry (j, i)
  of \<open>M\<close>. A matrix is Hermitian when it equals its conjugate transpose, and unitary when
  its product with its conjugate transpose is the identity.
\<close>

fun dagger :: "complex mat2 \<Rightarrow> complex mat2" where
  "dagger (Mat2 a b c d) = Mat2 (cnj a) (cnj c) (cnj b) (cnj d)"

definition hermitian :: "complex mat2 \<Rightarrow> bool" where
  "hermitian M = (dagger M = M)"

definition identity_mat :: "complex mat2" where
  "identity_mat = Mat2 1 0 0 1"

definition unitary :: "complex mat2 \<Rightarrow> bool" where
  "unitary U = (matmul U (dagger U) = identity_mat)"

text \<open>
  The interpolation formula of the specification, a pure function of \<open>T\<close>, \<open>A\<close>, \<open>B\<close> and
  \<open>t\<close>: \<open>H(t) = (1 - t/T) A + (t/T) B\<close>.
\<close>

definition H_spec :: "real \<Rightarrow> complex mat2 \<Rightarrow> complex mat2 \<Rightarrow> real \<Rightarrow> complex mat2" where
  "H_spec T A B t =
     mat_add (scalar_mul (complex_of_real (1 - t / T)) A) (scalar_mul (complex_of_real (t / T)) B)"


text \<open>
  The sweep as the specification describes it, a pure map with no global names: the
  right-hand side decodes the state to \<open>U\<close>, computes \<open>-i H(t) U\<close> from the pure
  interpolation formula and encodes it; one integration runs the solver from \<open>0\<close> to \<open>T\<close>
  on the initial state \<open>encode(U_A)\<close> with a grid of 101 points and decodes the state at the
  final grid point; the sweep maps the integration over the list of total times.
\<close>

definition ode_rhs_spec :: "real \<Rightarrow> complex mat2 \<Rightarrow> complex mat2 \<Rightarrow> rhs" where
  "ode_rhs_spec T A B =
     (\<lambda>t state. bind_result (flat_to_matrix state) (\<lambda>U.
        Inr (matrix_to_flat (scalar_mul (- \<i>) (matmul (H_spec T A B t) U)))))"

definition integrate_one ::
  "solver \<Rightarrow> complex mat2 \<Rightarrow> complex mat2 \<Rightarrow> complex mat2 \<Rightarrow> real \<Rightarrow> error + complex mat2" where
  "integrate_one solve_ivp A B U_A T =
     bind_result
       (solve_ivp (ode_rhs_spec T A B) (0, T) (matrix_to_flat U_A) (linspace 0 T 101))
       terminal_matrix"

definition pure_sweep ::
  "solver \<Rightarrow> complex mat2 \<Rightarrow> complex mat2 \<Rightarrow> complex mat2 \<Rightarrow> real list
     \<Rightarrow> error + complex mat2 list" where
  "pure_sweep solve_ivp A B U_A Ts = comprehension (integrate_one solve_ivp A B U_A) Ts"

text \<open>
  The rotated matrix \<open>U\<^sup>\<dagger> B U\<close> and the deviation \<open>D = |[U\<^sup>\<dagger> B U]\<^sub>0\<^sub>1|\<close> of the
  specification.
\<close>

definition rotated :: "complex mat2 \<Rightarrow> complex mat2 \<Rightarrow> complex mat2" where
  "rotated B U = matmul (matmul (dagger U) B) U"

definition deviation :: "complex mat2 \<Rightarrow> complex mat2 \<Rightarrow> real" where
  "deviation B U = cmod (entry (rotated B U) 0 1)"

subsection \<open>The shape of a solution\<close>

text \<open>
  Whether the array \<open>y\<close> of a solution has the entry \<open>y[i][k]\<close> for each of the eight
  components \<open>i\<close>, and the matrix decoded from the column \<open>k\<close> when it has.
\<close>

definition has_column :: "ode_result \<Rightarrow> nat \<Rightarrow> bool" where
  "has_column solution k =
     (8 \<le> length (sol_y solution) \<and> list_all (\<lambda>row. k < length row) (take 8 (sol_y solution)))"

definition column_matrix :: "ode_result \<Rightarrow> nat \<Rightarrow> complex mat2" where
  "column_matrix solution k =
     (let y = sol_y solution
      in Mat2 (Complex (y ! 0 ! k) (y ! 4 ! k)) (Complex (y ! 1 ! k) (y ! 5 ! k))
              (Complex (y ! 2 ! k) (y ! 6 ! k)) (Complex (y ! 3 ! k) (y ! 7 ! k)))"

section \<open>Concrete inputs\<close>

text \<open>
  A state of the globals with the matrices of the specification's concrete scenario,
  \<open>A = [[1, 0], [0, -1]]\<close> and \<open>B = [[0, 1], [1, 0]]\<close>, the eigenvectors of \<open>A\<close> being the
  identity, and a sweep over two total times.
\<close>

definition example_globals :: globals where
  "example_globals =
     \<lparr>glob_A = Mat2 1 0 0 (- 1), glob_B = Mat2 0 1 1 0, glob_U_A = Mat2 1 0 0 1,
      glob_T = None, glob_T_list = [1, 2], glob_U_T_list = [], glob_U_A_flat = [],
      glob_approx_B_diag_list = [], glob_off_diag_elements_of_approx_B_list = []\<rparr>"

text \<open>
  A solver to evaluate the sweep with. It takes the slope of the right-hand side at time
  \<open>1/2\<close> in the initial state, follows it linearly, reports the first \<open>n\<close> points of the
  evaluation grid and sets the flag \<open>success\<close> to \<open>ok\<close>. With \<open>n\<close> below the size of the
  grid it is a solver that stopped early; with \<open>ok\<close> false and the whole grid reported it is
  one whose flag says failure although every column is there.
\<close>

definition one_step_solver :: "bool \<Rightarrow> nat \<Rightarrow> solver" where
  "one_step_solver ok n f t_span y0 t_eval =
     bind_result (f (1 / 2) y0) (\<lambda>slope.
       Inr \<lparr>sol_success = ok,
            sol_y = map (\<lambda>(v, dv). map (\<lambda>t. v + t * dv) (take n t_eval)) (zip y0 slope)\<rparr>)"

section \<open>Properties of the encoding layer\<close>

lemma complex_of_parts: "complex_of_real (Re z) + \<i> * complex_of_real (Im z) = z"
  by (simp add: complex_eq_iff)

lemma real_imag_to_complex_inverse:
  "real_imag_to_complex (complex_to_real_imag x) = Inr x"
proof -
  have "map (\<lambda>(r, i). complex_of_real r + \<i> * complex_of_real i) (zip (map Re x) (map Im x)) = x"
    by (induction x) (simp_all add: complex_of_parts)
  then show ?thesis
    by (simp add: real_imag_to_complex_def complex_to_real_imag_def np_add_scaled_def)
qed

lemma flat_to_matrix_inverse: "flat_to_matrix (matrix_to_flat M) = Inr M"
  by (cases M)
    (simp add: flat_to_matrix_def matrix_to_flat_def real_imag_to_complex_inverse
      bind_result_def)

text \<open>
  Claim C3. The decoder undoes the encoder: for every 2 x 2 complex matrix \<open>M\<close>,
  \<open>flat_to_matrix (matrix_to_flat M)\<close> returns \<open>M\<close>, and for every complex vector \<open>x\<close>,
  \<open>real_imag_to_complex (complex_to_real_imag x)\<close> returns \<open>x\<close>; the encoding lists the
  real parts and then the imaginary parts of the entries taken in row-major order.
\<close>

theorem encoding_round_trip:
  "flat_to_matrix (matrix_to_flat M) = Inr M \<and>
   real_imag_to_complex (complex_to_real_imag x) = Inr x \<and>
   matrix_to_flat M =
     [Re (m00 M), Re (m01 M), Re (m10 M), Re (m11 M),
      Im (m00 M), Im (m01 M), Im (m10 M), Im (m11 M)]"
proof -
  have "matrix_to_flat M =
     [Re (m00 M), Re (m01 M), Re (m10 M), Re (m11 M),
      Im (m00 M), Im (m01 M), Im (m10 M), Im (m11 M)]"
    by (cases M) (simp add: matrix_to_flat_def complex_to_real_imag_def)
  with flat_to_matrix_inverse [of M] real_imag_to_complex_inverse [of x]
  show ?thesis by blast
qed

section \<open>Properties of the interpolator, the sampler and the rotation\<close>

lemma hermitian_add: "hermitian X \<Longrightarrow> hermitian Y \<Longrightarrow> hermitian (mat_add X Y)"
  by (cases X; cases Y) (simp add: hermitian_def)

lemma hermitian_real_scalar: "hermitian X \<Longrightarrow> hermitian (scalar_mul (complex_of_real r) X)"
  by (cases X) (simp add: hermitian_def scalar_mul_def)


lemma dagger_numpy': "conj_mat (transpose_mat X) = dagger X"
  by (cases X) (simp add: conj_mat_def)

lemma H_bound: "T \<noteq> 0 \<Longrightarrow> H (g\<lparr>glob_T := Some T\<rparr>) t = Inr (H_spec T (glob_A g) (glob_B g) t)"
  by (simp add: H_def H_spec_def)

lemma H_zero: "H (g\<lparr>glob_T := Some 0\<rparr>) t = Inl ZeroDivisionError"
  by (simp add: H_def)

lemma H_spec_0: "H_spec T A B 0 = A"
  by (cases A; cases B) (simp add: H_spec_def scalar_mul_def)

lemma H_spec_T: "T \<noteq> 0 \<Longrightarrow> H_spec T A B T = B"
  by (cases A; cases B) (simp add: H_spec_def scalar_mul_def)

lemma H_spec_hermitian: "hermitian A \<Longrightarrow> hermitian B \<Longrightarrow> hermitian (H_spec T A B t)"
  unfolding H_spec_def by (intro hermitian_add hermitian_real_scalar)

text \<open>
  Claim C5. For every pair of matrices \<open>A\<close>, \<open>B\<close> and every total duration \<open>T > 0\<close>
  bound to the global \<open>T\<close>, the interpolator returns \<open>A\<close> at time \<open>0\<close> and \<open>B\<close> at time
  \<open>T\<close>, exactly.
\<close>

theorem H_endpoints:
  assumes "0 < T"
  shows "H (g\<lparr>glob_T := Some T\<rparr>) 0 = Inr (glob_A g) \<and> H (g\<lparr>glob_T := Some T\<rparr>) T = Inr (glob_B g)"
  using assms by (simp add: H_bound H_spec_0 H_spec_T)

text \<open>
  The endpoints at \<open>T = 2\<close> for the matrices of the concrete scenario.
\<close>

theorem H_endpoints_witness:
  "(0::real) < 2 \<and> H (example_globals\<lparr>glob_T := Some 2\<rparr>) 0 = Inr (Mat2 1 0 0 (- 1)) \<and>
   H (example_globals\<lparr>glob_T := Some 2\<rparr>) 2 = Inr (Mat2 0 1 1 0)"
  using H_endpoints [of 2 example_globals] by (simp add: example_globals_def)

text \<open>
  Claim C6. For Hermitian \<open>A\<close> and \<open>B\<close>, every \<open>T > 0\<close> and every \<open>t\<close> with
  \<open>0 \<le> t \<le> T\<close>, the interpolator returns \<open>(1 - t/T) A + (t/T) B\<close>, and this matrix equals
  its own conjugate transpose.
\<close>

theorem H_preserves_hermiticity:
  assumes "hermitian (glob_A g)" and "hermitian (glob_B g)" and "0 < T" and "0 \<le> t" and "t \<le> T"
  shows "H (g\<lparr>glob_T := Some T\<rparr>) t = Inr (H_spec T (glob_A g) (glob_B g) t) \<and>
         dagger (H_spec T (glob_A g) (glob_B g) t) = H_spec T (glob_A g) (glob_B g) t"
  using assms H_spec_hermitian [of "glob_A g" "glob_B g" T t]
  by (simp add: H_bound hermitian_def)

text \<open>
  The midpoint \<open>t = 1\<close> of the interval for \<open>T = 2\<close>.
\<close>

theorem H_preserves_hermiticity_witness:
  "hermitian (glob_A example_globals) \<and> hermitian (glob_B example_globals) \<and>
   H (example_globals\<lparr>glob_T := Some 2\<rparr>) 1 = Inr (Mat2 (1/2) (1/2) (1/2) (- 1/2)) \<and>
   dagger (Mat2 (1/2) (1/2) (1/2) (- 1/2)) = Mat2 (1/2) (1/2) (1/2) (- 1/2)"
proof -
  have a: "hermitian (glob_A example_globals)" and b: "hermitian (glob_B example_globals)"
    by (simp_all add: example_globals_def hermitian_def)
  have v: "H_spec 2 (glob_A example_globals) (glob_B example_globals) 1 = Mat2 (1/2) (1/2) (1/2) (- 1/2)"
    by (simp add: example_globals_def H_spec_def scalar_mul_def)
  from H_preserves_hermiticity [OF a b, of 2 1] a b show ?thesis
    unfolding v by simp
qed

lemma T_list_positive: "T \<in> set T_list \<Longrightarrow> 0 < T"
  by (auto simp: T_list_def)

text \<open>
  Claim C10. With the global \<open>T\<close> bound to a total duration \<open>T \<noteq> 0\<close>, \<open>H\<close> returns
  \<open>(1 - t/T) A + (t/T) B\<close> for every real \<open>t\<close>, inside the interval from \<open>0\<close> to \<open>T\<close>
  or not. \<open>H\<close> raises exactly when \<open>T = 0\<close>, and what it raises is the ZeroDivisionError
  of the unguarded division. Every value of \<open>T_list\<close> is positive, so the sweep never
  meets that case.
\<close>

theorem H_total_unless_T_zero:
  "(T \<noteq> 0 \<longrightarrow> H (g\<lparr>glob_T := Some T\<rparr>) t = Inr (H_spec T (glob_A g) (glob_B g) t)) \<and>
   (H (g\<lparr>glob_T := Some T\<rparr>) t = Inl e \<longleftrightarrow> T = 0 \<and> e = ZeroDivisionError) \<and>
   H_spec T A B t = mat_add (scalar_mul (complex_of_real (1 - t / T)) A) (scalar_mul (complex_of_real (t / T)) B) \<and>
   (\<forall>T' \<in> set T_list. 0 < T')"
  by (cases "T = 0") (auto simp: H_bound H_zero T_list_positive H_spec_def)

text \<open>
  A time outside the interval, \<open>t = 5\<close> for \<open>T = 2\<close>; the failure for \<open>T = 0\<close>; the first
  value of the sweep.
\<close>

theorem H_total_unless_T_zero_witness:
  "H (example_globals\<lparr>glob_T := Some 2\<rparr>) 5 = Inr (Mat2 (- 3/2) (5/2) (5/2) (3/2)) \<and>
   H (example_globals\<lparr>glob_T := Some 0\<rparr>) 5 = Inl ZeroDivisionError \<and>
   T_list \<noteq> [] \<and> 0 < hd T_list"
proof -
  have v: "H_spec 2 (glob_A example_globals) (glob_B example_globals) 5 = Mat2 (- 3/2) (5/2) (5/2) (3/2)"
    by (simp add: example_globals_def H_spec_def scalar_mul_def)
  have ne: "T_list \<noteq> []" by (simp add: T_list_def)
  then have m: "hd T_list \<in> set T_list" by simp
  from H_total_unless_T_zero [of 2 example_globals 5 ZeroDivisionError]
  have 1: "H (example_globals\<lparr>glob_T := Some 2\<rparr>) 5 = Inr (Mat2 (- 3/2) (5/2) (5/2) (3/2))"
    unfolding v by simp
  from H_total_unless_T_zero [of 0 example_globals 5 ZeroDivisionError]
  have 2: "H (example_globals\<lparr>glob_T := Some 0\<rparr>) 5 = Inl ZeroDivisionError" by simp
  from H_total_unless_T_zero [of 0 example_globals 5 ZeroDivisionError] m
  have 3: "0 < hd T_list" by blast
  from 1 2 ne 3 show ?thesis by blast
qed

lemma dagger_matmul: "dagger (matmul X Y) = matmul (dagger Y) (dagger X)"
  by (cases X; cases Y) (simp add: algebra_simps)

lemma dagger_dagger: "dagger (dagger X) = X"
  by (cases X) simp

lemma matmul_assoc: "matmul (matmul X Y) Z = matmul X (matmul Y Z)"
  by (cases X; cases Y; cases Z) (simp add: algebra_simps)

lemma rotated_hermitian: "hermitian B \<Longrightarrow> hermitian (matmul (matmul (dagger U) B) U)"
  by (simp add: hermitian_def dagger_matmul dagger_dagger matmul_assoc)

lemma hermitian_off_diagonal: "hermitian M \<Longrightarrow> entry M 1 0 = cnj (entry M 0 1)"
  by (cases M) (auto simp: hermitian_def)

text \<open>
  Claim C8. For a Hermitian \<open>B\<close> and a unitary \<open>U\<close>, the matrix
  \<^verbatim>\<open>np.conj(U.T) @ B @ U\<close> of the analysis is Hermitian: its entry (1, 0) is the complex
  conjugate of its entry (0, 1), and the two entries have the same magnitude.
\<close>

theorem rotated_matrix_hermitian:
  assumes "hermitian B" and "unitary U"
  shows "hermitian (matmul (matmul (conj_mat (transpose_mat U)) B) U) \<and>
         entry (matmul (matmul (conj_mat (transpose_mat U)) B) U) 1 0 =
           cnj (entry (matmul (matmul (conj_mat (transpose_mat U)) B) U) 0 1) \<and>
         cmod (entry (matmul (matmul (conj_mat (transpose_mat U)) B) U) 1 0) =
           cmod (entry (matmul (matmul (conj_mat (transpose_mat U)) B) U) 0 1)"
proof -
  let ?R = "matmul (matmul (conj_mat (transpose_mat U)) B) U"
  have h: "hermitian ?R"
    using assms(1) by (simp add: dagger_numpy' rotated_hermitian)
  then have e: "entry ?R 1 0 = cnj (entry ?R 0 1)"
    by (rule hermitian_off_diagonal)
  then have "cmod (entry ?R 1 0) = cmod (entry ?R 0 1)"
    by simp
  with h e show ?thesis by blast
qed

text \<open>
  The rotation of \<open>[[1, i], [-i, 2]]\<close> by the unitary \<open>[[0, i], [i, 0]]\<close>.
\<close>

theorem rotated_matrix_hermitian_witness:
  "hermitian (Mat2 1 \<i> (- \<i>) 2) \<and> unitary (Mat2 0 \<i> \<i> 0) \<and>
   matmul (matmul (conj_mat (transpose_mat (Mat2 0 \<i> \<i> 0))) (Mat2 1 \<i> (- \<i>) 2)) (Mat2 0 \<i> \<i> 0)
     = Mat2 2 (- \<i>) \<i> 1 \<and>
   hermitian (Mat2 2 (- \<i>) \<i> 1) \<and>
   entry (Mat2 2 (- \<i>) \<i> 1) 1 0 = cnj (entry (Mat2 2 (- \<i>) \<i> 1) 0 1) \<and>
   cmod (entry (Mat2 2 (- \<i>) \<i> 1) 1 0) = cmod (entry (Mat2 2 (- \<i>) \<i> 1) 0 1)"
proof -
  have b: "hermitian (Mat2 1 \<i> (- \<i>) 2)"
    by (simp add: hermitian_def)
  have u: "unitary (Mat2 0 \<i> \<i> 0)"
    by (simp add: unitary_def identity_mat_def)
  have r: "matmul (matmul (conj_mat (transpose_mat (Mat2 0 \<i> \<i> 0))) (Mat2 1 \<i> (- \<i>) 2)) (Mat2 0 \<i> \<i> 0)
     = Mat2 2 (- \<i>) \<i> 1"
    by (simp add: conj_mat_def complex_eq_iff)
  from rotated_matrix_hermitian [OF b u] b u r show ?thesis
    by simp
qed




section \<open>Properties of the sweep and of the analysis\<close>

subsection \<open>The list of total times\<close>

lemma length_T_list: "length T_list = 18"
  by (simp add: T_list_def)

lemma nth_T_list: "j < 18 \<Longrightarrow> T_list ! j = 10 powr (- 1 + 0.25 * real j)"
  by (simp add: T_list_def mult.commute)

lemma hd_T_list: "hd T_list = 1 / 10"
proof -
  have "hd T_list = T_list ! 0"
    by (rule hd_conv_nth) (simp add: T_list_def)
  also have "\<dots> = 10 powr (- 1)"
    by (simp add: nth_T_list)
  also have "\<dots> = 1 / 10"
    by (simp add: powr_minus_divide)
  finally show ?thesis .
qed

lemma last_T_list: "last T_list = 10 powr (13 / 4)"
proof -
  have "last T_list = T_list ! 17"
    by (simp add: last_conv_nth length_T_list T_list_def[THEN arg_cong, of "\<lambda>x. x = []"])
  also have "\<dots> = 10 powr (13 / 4)"
    by (simp add: nth_T_list)
  finally show ?thesis .
qed

lemma root4_bounds:
  fixes x :: real
  assumes "0 \<le> a" "a ^ 4 < x" 
  shows "a < x powr (1 / 4)"
proof -
  have "a = (a ^ 4) powr (1 / 4)"
    using assms(1) by (simp add: powr_powr flip: powr_numeral)
  also have "\<dots> < x powr (1 / 4)"
    using assms by (intro powr_less_mono2) simp_all
  finally show ?thesis .
qed

lemma root4_bounds_upper:
  fixes x :: real
  assumes "0 \<le> a" "0 \<le> x" "x < a ^ 4" 
  shows "x powr (1 / 4) < a"
proof -
  have "x powr (1 / 4) < (a ^ 4) powr (1 / 4)"
    using assms by (intro powr_less_mono2) simp_all
  also have "\<dots> = a"
    using assms(1) by (simp add: powr_powr flip: powr_numeral)
  finally show ?thesis .
qed

lemma ten_powr_quarters: "(10::real) powr (real n / 4) = (10 ^ n) powr (1 / 4)"
  by (simp add: powr_powr flip: powr_realpow)

lemma last_T_list_bounds: "1778 < last T_list \<and> last T_list < 1779"
proof -
  have "(10::real) powr (13 / 4) = (10 ^ 13) powr (1 / 4)"
    using ten_powr_quarters [of 13] by simp
  moreover have "(1778::real) < (10 ^ 13) powr (1 / 4)"
    by (rule root4_bounds) simp_all
  moreover have "((10::real) ^ 13) powr (1 / 4) < 1779"
    by (rule root4_bounds_upper) simp_all
  ultimately show ?thesis
    by (simp add: last_T_list)
qed

lemma T_list_15_bounds: "562 < T_list ! 15 \<and> T_list ! 15 < 563"
proof -
  have "T_list ! 15 = 10 powr (11 / 4)"
    by (simp add: nth_T_list)
  moreover have "(10::real) powr (11 / 4) = (10 ^ 11) powr (1 / 4)"
    using ten_powr_quarters [of 11] by simp
  moreover have "(562::real) < (10 ^ 11) powr (1 / 4)"
    by (rule root4_bounds) simp_all
  moreover have "((10::real) ^ 11) powr (1 / 4) < 563"
    by (rule root4_bounds_upper) simp_all
  ultimately show ?thesis
    by simp
qed

subsection \<open>The evaluation grid, indexing and comprehensions\<close>

lemma length_linspace: "length (linspace a b n) = n"
  by (simp add: linspace_def)

lemma nth_linspace: "i < n \<Longrightarrow> linspace a b n ! i = a + real i * ((b - a) / real (n - 1))"
  by (simp add: linspace_def)

lemma index_Inr: "i < length xs \<Longrightarrow> index xs i = Inr (xs ! i)"
  by (simp add: index_def)

lemma index_Inl: "\<not> i < length xs \<Longrightarrow> index xs i = Inl IndexError"
  by (simp add: index_def)

lemma bind_result_simps:
  "bind_result (Inl e) k = Inl e" "bind_result (Inr v) k = k v"
  by (simp_all add: bind_result_def)

lemma comprehension_Inr:
  "(\<And>i. i \<in> set js \<Longrightarrow> f i = Inr (h i)) \<Longrightarrow> comprehension f js = Inr (map h js)"
  by (induction js) (simp_all add: bind_result_simps)


subsection \<open>Reading the terminal matrix\<close>

lemma has_column_iff:
  "has_column solution k \<longleftrightarrow>
     8 \<le> length (sol_y solution) \<and> (\<forall>i<8. k < length (sol_y solution ! i))"
  by (auto simp: has_column_def list_all_length)

lemma upt8: "[0..<8] = [0, 1, 2, 3, 4, 5, 6, 7]"
  by (simp add: upt_conv_Cons)

lemma decode_8:
  "bind_result (real_imag_to_complex [a, b, c, d, a', b', c', d']) reshape22 =
     Inr (Mat2 (Complex a a') (Complex b b') (Complex c c') (Complex d d'))"
  by (simp add: real_imag_to_complex_def np_add_scaled_def bind_result_simps complex_eq_iff)

lemma terminal_matrix_Inr:
  assumes "has_column solution num_values"
  shows "terminal_matrix solution = Inr (column_matrix solution num_values)"
proof -
  let ?f = "\<lambda>i. bind_result (index (sol_y solution) i) (\<lambda>row. index row num_values)"
  have "comprehension ?f [0..<8] = Inr (map (\<lambda>i. sol_y solution ! i ! num_values) [0..<8])"
    using assms by (intro comprehension_Inr) (simp add: has_column_iff index_Inr bind_result_simps)
  then have "terminal_matrix solution =
      bind_result (real_imag_to_complex (map (\<lambda>i. sol_y solution ! i ! num_values) [0..<8])) reshape22"
    by (simp add: terminal_matrix_def bind_result_simps)
  also have "map (\<lambda>i. sol_y solution ! i ! num_values) [0..<8] =
      map (\<lambda>i. sol_y solution ! i ! num_values) [0, 1, 2, 3, 4, 5, 6, 7]"
    by (simp only: upt8)
  finally show ?thesis
    by (simp add: decode_8 column_matrix_def Let_def)
qed


subsection \<open>The loop of the sweep and the pure map\<close>

lemma matmul_scalar_mul: "matmul (scalar_mul s X) Y = scalar_mul s (matmul X Y)"
  by (cases X; cases Y) (simp add: scalar_mul_def algebra_simps)

lemma sweep_rhs_spec:
  assumes "T \<noteq> 0"
  shows "sweep_rhs (g\<lparr>glob_T := Some T\<rparr>) = ode_rhs_spec T (glob_A g) (glob_B g)"
proof (intro ext)
  fix t U_flat
  show "sweep_rhs (g\<lparr>glob_T := Some T\<rparr>) t U_flat = ode_rhs_spec T (glob_A g) (glob_B g) t U_flat"
    using assms
    by (cases "flat_to_matrix U_flat")
      (simp_all add: sweep_rhs_def ode_rhs_spec_def matrix_differential_equation_def
        H_bound bind_result_simps matmul_scalar_mul)
qed

lemma sweep_body_integrate_one:
  assumes "T \<noteq> 0" and "glob_U_A_flat g = matrix_to_flat (glob_U_A g)"
  shows "sweep_body solve_ivp g T =
     bind_result (integrate_one solve_ivp (glob_A g) (glob_B g) (glob_U_A g) T)
       (\<lambda>U_T. Inr (g\<lparr>glob_T := Some T, glob_U_T_list := glob_U_T_list g @ [U_T]\<rparr>))"
proof -
  have n: "Suc num_values = 101" by (simp add: num_values_def)
  show ?thesis
    using assms
    by (cases "solve_ivp (ode_rhs_spec T (glob_A g) (glob_B g)) (0, T) (matrix_to_flat (glob_U_A g))
                 (linspace 0 T 101)")
      (simp_all add: sweep_body_def integrate_one_def sweep_rhs_spec n bind_result_simps Let_def)
qed

lemma sweep_loop_pure_sweep:
  assumes "0 \<notin> set Ts" and "glob_U_A_flat g = matrix_to_flat (glob_U_A g)"
  shows "sweep_loop solve_ivp g Ts =
     bind_result (pure_sweep solve_ivp (glob_A g) (glob_B g) (glob_U_A g) Ts)
       (\<lambda>Us. Inr (g\<lparr>glob_T := (if Ts = [] then glob_T g else Some (last Ts)),
                    glob_U_T_list := glob_U_T_list g @ Us\<rparr>))"
  using assms
proof (induction Ts arbitrary: g)
  case Nil
  then show ?case
    by (simp add: sweep_loop_def pure_sweep_def bind_result_simps)
next
  case (Cons T Ts)
  from Cons.prems have T: "T \<noteq> 0" and Ts: "0 \<notin> set Ts" by auto
  note body = sweep_body_integrate_one [OF T Cons.prems(2), of solve_ivp]
  show ?case
  proof (cases "integrate_one solve_ivp (glob_A g) (glob_B g) (glob_U_A g) T")
    case (Inl e)
    with body show ?thesis
      by (simp add: sweep_loop_def pure_sweep_def bind_result_simps)
  next
    case (Inr U_T)
    let ?g = "g\<lparr>glob_T := Some T, glob_U_T_list := glob_U_T_list g @ [U_T]\<rparr>"
    have flat: "glob_U_A_flat ?g = matrix_to_flat (glob_U_A ?g)"
      using Cons.prems(2) by simp
    have "sweep_loop solve_ivp g (T # Ts) = sweep_loop solve_ivp ?g Ts"
      using body Inr by (simp add: sweep_loop_def bind_result_simps)
    also note Cons.IH [OF Ts flat]
    finally show ?thesis
      using Inr
      by (cases "pure_sweep solve_ivp (glob_A g) (glob_B g) (glob_U_A g) Ts")
        (simp_all add: pure_sweep_def bind_result_simps)
  qed
qed

lemma comprehension_Cons_Inr:
  "comprehension f (j # js) = Inr vs \<longleftrightarrow>
     (\<exists>w ws. vs = w # ws \<and> f j = Inr w \<and> comprehension f js = Inr ws)"
  by (cases "f j"; cases "comprehension f js") (auto simp: bind_result_simps)

lemma all_less_Suc_shift: "(\<forall>k<Suc n. P k) \<longleftrightarrow> P 0 \<and> (\<forall>k<n. P (Suc k))"
  by (auto simp: less_Suc_eq_0_disj)

lemma comprehension_Inr_iff:
  "comprehension f js = Inr vs \<longleftrightarrow>
     length vs = length js \<and> (\<forall>k<length js. f (js ! k) = Inr (vs ! k))"
proof (induction js arbitrary: vs)
  case Nil
  then show ?case by auto
next
  case (Cons j js)
  show ?case
  proof (cases vs)
    case Nil
    then show ?thesis by (simp add: comprehension_Cons_Inr del: comprehension.simps)
  next
    case (Cons w ws)
    then show ?thesis
      using Cons.IH [of ws]
      by (auto simp add: comprehension_Cons_Inr all_less_Suc_shift simp del: comprehension.simps)
  qed
qed

subsection \<open>The loop of the analysis\<close>

lemma for_loop_append:
  "for_loop body s (xs @ ys) = bind_result (for_loop body s xs) (\<lambda>s'. for_loop body s' ys)"
  by (induction xs arbitrary: s) (simp_all add: bind_result_def split: sum.splits)

lemma analysis_body_step:
  assumes "j < length (glob_T_list g)" and "j < length (glob_U_T_list g)"
  shows "analysis_body g j =
     Inr (g\<lparr>glob_T := Some (glob_T_list g ! j),
            glob_approx_B_diag_list :=
              glob_approx_B_diag_list g @ [rotated (glob_B g) (glob_U_T_list g ! j)],
            glob_off_diag_elements_of_approx_B_list :=
              glob_off_diag_elements_of_approx_B_list g
                @ [deviation (glob_B g) (glob_U_T_list g ! j)]\<rparr>)"
  using assms
  by (simp add: analysis_body_def index_Inr bind_result_simps Let_def rotated_def
      deviation_def dagger_numpy')

lemma analysis_body_short:
  assumes "\<not> j < length (glob_U_T_list g)"
  shows "analysis_body g j = Inl IndexError"
  using assms
  by (cases "j < length (glob_T_list g)")
    (simp_all add: analysis_body_def index_def bind_result_simps Let_def)

lemma analysis_prefix:
  assumes "n \<le> length (glob_T_list g)" and "n \<le> length (glob_U_T_list g)"
  shows "for_loop analysis_body g [0..<n] =
     Inr (g\<lparr>glob_T := (if n = 0 then glob_T g else Some (glob_T_list g ! (n - 1))),
            glob_approx_B_diag_list :=
              glob_approx_B_diag_list g @ map (rotated (glob_B g)) (take n (glob_U_T_list g)),
            glob_off_diag_elements_of_approx_B_list :=
              glob_off_diag_elements_of_approx_B_list g
                @ map (deviation (glob_B g)) (take n (glob_U_T_list g))\<rparr>)"
  using assms
proof (induction n)
  case 0
  then show ?case by simp
next
  case (Suc n)
  then show ?case
    by (simp add: for_loop_append bind_result_simps analysis_body_step take_Suc_conv_app_nth)
qed

lemma analysis_cell_result:
  "analysis_cell g =
     (if length (glob_T_list g) \<le> length (glob_U_T_list g) then
        Inr (g\<lparr>glob_T := (if glob_T_list g = [] then glob_T g else Some (last (glob_T_list g))),
               glob_approx_B_diag_list :=
                 map (rotated (glob_B g)) (take (length (glob_T_list g)) (glob_U_T_list g)),
               glob_off_diag_elements_of_approx_B_list :=
                 map (deviation (glob_B g)) (take (length (glob_T_list g)) (glob_U_T_list g))\<rparr>)
      else Inl IndexError)"
proof (cases "length (glob_T_list g) \<le> length (glob_U_T_list g)")
  case True
  let ?g = "g\<lparr>glob_approx_B_diag_list := [], glob_off_diag_elements_of_approx_B_list := []\<rparr>"
  from True have "length (glob_T_list ?g) \<le> length (glob_T_list ?g)"
    and "length (glob_T_list ?g) \<le> length (glob_U_T_list ?g)" by simp_all
  from analysis_prefix [OF this] True show ?thesis
    by (simp add: analysis_cell_def Let_def last_conv_nth)
next
  case False
  let ?g = "g\<lparr>glob_approx_B_diag_list := [], glob_off_diag_elements_of_approx_B_list := []\<rparr>"
  let ?k = "length (glob_U_T_list g)"
  let ?n = "length (glob_T_list g)"
  from False have k: "?k < ?n" by simp
  then have split: "[0..<?n] = [0..<?k] @ ?k # [Suc ?k..<?n]"
    by (metis less_imp_le_nat upt_add_eq_append upt_conv_Cons le_add_diff_inverse zero_le)
  have "?k \<le> length (glob_T_list ?g)" and "?k \<le> length (glob_U_T_list ?g)"
    using k by simp_all
  from analysis_prefix [OF this]
  have "for_loop analysis_body ?g [0..<?n] = Inl IndexError"
    unfolding split for_loop_append
    by (simp add: bind_result_simps analysis_body_short)
  with False show ?thesis
    by (simp add: analysis_cell_def Let_def)
qed

lemma entry_rotated_01:
  "entry (rotated B U) 0 1 = (\<Sum>k<2. \<Sum>l<2. cnj (entry U k 0) * entry B k l * entry U l 1)"
  by (cases B; cases U) (simp add: rotated_def lessThan_Suc numeral_2_eq_2 algebra_simps)

subsection \<open>One iteration of the sweep, and the sweep of the concrete scenario\<close>






lemma example_column:
  assumes "sol_y solution = map (\<lambda>(v, dv). map (\<lambda>t. v + t * dv) (take n (linspace 0 T (num_values + 1))))
                    (zip [a0, a1, a2, a3, a4, a5, a6, a7] [b0, b1, b2, b3, b4, b5, b6, b7])"
  shows "has_column solution num_values \<longleftrightarrow> num_values < n"
    and "num_values < n \<Longrightarrow> column_matrix solution num_values =
           Mat2 (Complex (a0 + T * b0) (a4 + T * b4)) (Complex (a1 + T * b1) (a5 + T * b5))
                (Complex (a2 + T * b2) (a6 + T * b6)) (Complex (a3 + T * b3) (a7 + T * b7))"
  using assms
  by (simp_all add: has_column_def column_matrix_def length_linspace nth_linspace num_values_def)











subsection \<open>The sweep, the analysis and the notebook as a whole\<close>

lemma analysis_cell_preserves:
  assumes "analysis_cell g = Inr g'"
  shows "glob_A g' = glob_A g \<and> glob_B g' = glob_B g \<and> glob_U_A g' = glob_U_A g \<and>
         glob_T_list g' = glob_T_list g \<and> glob_U_T_list g' = glob_U_T_list g"
  using assms unfolding analysis_cell_result by (auto split: if_splits)

lemma sweep_cell_pure_sweep:
  assumes "0 \<notin> set (glob_T_list g)"
  shows "sweep_cell solve_ivp g =
     bind_result (pure_sweep solve_ivp (glob_A g) (glob_B g) (glob_U_A g) (glob_T_list g))
       (\<lambda>Us. Inr (g\<lparr>glob_U_A_flat := matrix_to_flat (glob_U_A g),
                    glob_T := (if glob_T_list g = [] then glob_T g else Some (last (glob_T_list g))),
                    glob_U_T_list := glob_U_T_list g @ Us\<rparr>))"
proof -
  let ?g = "g\<lparr>glob_U_A_flat := matrix_to_flat (glob_U_A g)\<rparr>"
  have "0 \<notin> set (glob_T_list ?g)" and "glob_U_A_flat ?g = matrix_to_flat (glob_U_A ?g)"
    using assms by simp_all
  from sweep_loop_pure_sweep [OF this, of solve_ivp] show ?thesis
    by (simp add: sweep_cell_def Let_def)
qed

lemma T_list_nonzero: "0 \<notin> set T_list"
  using T_list_positive by fastforce

lemma T_list_not_Nil: "T_list \<noteq> []"
  by (simp add: T_list_def)

lemma pure_sweep_length:
  "pure_sweep solve_ivp A B U_A Ts = Inr Us \<Longrightarrow> length Us = length Ts"
  by (simp add: pure_sweep_def comprehension_Inr_iff)

lemma startup_sweep_cell:
  "sweep_cell solve_ivp (startup eigh_vectors re_A im_A re_B im_B) =
     bind_result
       (pure_sweep solve_ivp (sample_hermitian_matrix re_A im_A) (sample_hermitian_matrix re_B im_B)
          (eigh_vectors (sample_hermitian_matrix re_A im_A)) T_list)
       (\<lambda>Us. Inr ((startup eigh_vectors re_A im_A re_B im_B)
                    \<lparr>glob_U_A_flat := matrix_to_flat (eigh_vectors (sample_hermitian_matrix re_A im_A)),
                     glob_T := Some (last T_list), glob_U_T_list := Us\<rparr>))"
proof -
  let ?g = "startup eigh_vectors re_A im_A re_B im_B"
  have f: "glob_T_list ?g = T_list" "glob_A ?g = sample_hermitian_matrix re_A im_A"
    "glob_B ?g = sample_hermitian_matrix re_B im_B"
    "glob_U_A ?g = eigh_vectors (sample_hermitian_matrix re_A im_A)" "glob_U_T_list ?g = []"
    by (simp_all add: startup_def Let_def)
  have "0 \<notin> set (glob_T_list ?g)"
    by (simp add: f T_list_nonzero)
  from sweep_cell_pure_sweep [OF this, of solve_ivp] show ?thesis
    by (simp add: f T_list_not_Nil)
qed

lemma notebook_result:
  "notebook solve_ivp eigh_vectors re_A im_A re_B im_B =
     bind_result
       (pure_sweep solve_ivp (sample_hermitian_matrix re_A im_A) (sample_hermitian_matrix re_B im_B)
          (eigh_vectors (sample_hermitian_matrix re_A im_A)) T_list)
       (\<lambda>Us. Inr \<lparr>glob_A = sample_hermitian_matrix re_A im_A,
                   glob_B = sample_hermitian_matrix re_B im_B,
                   glob_U_A = eigh_vectors (sample_hermitian_matrix re_A im_A),
                   glob_T = Some (last T_list), glob_T_list = T_list, glob_U_T_list = Us,
                   glob_U_A_flat = matrix_to_flat (eigh_vectors (sample_hermitian_matrix re_A im_A)),
                   glob_approx_B_diag_list = map (rotated (sample_hermitian_matrix re_B im_B)) Us,
                   glob_off_diag_elements_of_approx_B_list =
                     map (deviation (sample_hermitian_matrix re_B im_B)) Us\<rparr>)"
proof (cases "pure_sweep solve_ivp (sample_hermitian_matrix re_A im_A) (sample_hermitian_matrix re_B im_B)
          (eigh_vectors (sample_hermitian_matrix re_A im_A)) T_list")
  case (Inl e)
  then show ?thesis
    by (simp add: notebook_def startup_sweep_cell bind_result_simps)
next
  case (Inr Us)
  from pure_sweep_length [OF Inr] have "length Us = length T_list" .
  moreover have "notebook solve_ivp eigh_vectors re_A im_A re_B im_B =
      analysis_cell ((startup eigh_vectors re_A im_A re_B im_B)
                    \<lparr>glob_U_A_flat := matrix_to_flat (eigh_vectors (sample_hermitian_matrix re_A im_A)),
                     glob_T := Some (last T_list), glob_U_T_list := Us\<rparr>)"
    using Inr by (simp add: notebook_def startup_sweep_cell bind_result_simps)
  ultimately show ?thesis
    using Inr
    by (simp add: bind_result_simps analysis_cell_result T_list_not_Nil startup_def Let_def)
qed

text \<open>
  Claim C2. When no total time of \<open>T_list\<close> is zero, the fourth cell, with its global
  \<open>T\<close> and its accumulator \<open>U_T_list\<close>, fails exactly when the pure map of the
  specification fails, and otherwise appends the results of the pure map to \<open>U_T_list\<close>;
  it leaves \<open>A\<close>, \<open>B\<close> and \<open>U_A\<close> as they were. The j-th result of the pure map is the
  integration for the j-th total time, a function of that total time, \<open>A\<close>, \<open>B\<close> and \<open>U_A\<close>
  alone. The analysis leaves \<open>A\<close>, \<open>B\<close>, \<open>U_A\<close>, \<open>T_list\<close> and \<open>U_T_list\<close> as they were.
  For the state the notebook starts the sweep from, whose \<open>T_list\<close> has no zero and whose
  \<open>U_T_list\<close> is empty, the recorded list is the result of the pure map.
\<close>

theorem sweep_is_pure_map:
  assumes "0 \<notin> set (glob_T_list g)"
  shows "sweep_cell solve_ivp g =
           bind_result (pure_sweep solve_ivp (glob_A g) (glob_B g) (glob_U_A g) (glob_T_list g))
             (\<lambda>Us. Inr (g\<lparr>glob_U_A_flat := matrix_to_flat (glob_U_A g),
                          glob_T := (if glob_T_list g = [] then glob_T g
                                     else Some (last (glob_T_list g))),
                          glob_U_T_list := glob_U_T_list g @ Us\<rparr>)) \<and>
         (pure_sweep solve_ivp A B U_A Ts = Inr Us \<longleftrightarrow>
            length Us = length Ts \<and>
            (\<forall>j<length Ts. integrate_one solve_ivp A B U_A (Ts ! j) = Inr (Us ! j))) \<and>
         (analysis_cell g = Inr g' \<longrightarrow>
            glob_A g' = glob_A g \<and> glob_B g' = glob_B g \<and> glob_U_A g' = glob_U_A g \<and>
            glob_T_list g' = glob_T_list g \<and> glob_U_T_list g' = glob_U_T_list g) \<and>
         sweep_cell solve_ivp (startup eigh_vectors re_A im_A re_B im_B) =
           bind_result
             (pure_sweep solve_ivp (sample_hermitian_matrix re_A im_A)
                (sample_hermitian_matrix re_B im_B)
                (eigh_vectors (sample_hermitian_matrix re_A im_A)) T_list)
             (\<lambda>Us. Inr ((startup eigh_vectors re_A im_A re_B im_B)
                    \<lparr>glob_U_A_flat :=
                       matrix_to_flat (eigh_vectors (sample_hermitian_matrix re_A im_A)),
                     glob_T := Some (last T_list), glob_U_T_list := Us\<rparr>))"
proof -
  have "pure_sweep solve_ivp A B U_A Ts = Inr Us \<longleftrightarrow>
            length Us = length Ts \<and>
            (\<forall>j<length Ts. integrate_one solve_ivp A B U_A (Ts ! j) = Inr (Us ! j))"
    unfolding pure_sweep_def by (rule comprehension_Inr_iff)
  with sweep_cell_pure_sweep [OF assms, of solve_ivp] analysis_cell_preserves [of g g']
    startup_sweep_cell [of solve_ivp eigh_vectors re_A im_A re_B im_B]
  show ?thesis by blast
qed

lemma example_rhs_spec:
  assumes "T \<noteq> 0"
  shows "ode_rhs_spec T (Mat2 1 0 0 (- 1)) (Mat2 0 1 1 0) (1 / 2) [1, 0, 0, 1, 0, 0, 0, 0] =
     Inr [0, 0, 0, 0, - (1 - 1 / (2 * T)), - (1 / (2 * T)), - (1 / (2 * T)), 1 - 1 / (2 * T)]"
  using assms
  by (simp add: ode_rhs_spec_def H_spec_def
      flat_to_matrix_def real_imag_to_complex_def np_add_scaled_def bind_result_simps
      matrix_to_flat_def complex_to_real_imag_def scalar_mul_def)

lemma example_integrate_one:
  assumes "T \<noteq> 0"
  shows "integrate_one (one_step_solver ok 101) (Mat2 1 0 0 (- 1)) (Mat2 0 1 1 0) (Mat2 1 0 0 1) T =
     Inr (Mat2 (Complex 1 (- (T - 1 / 2))) (Complex 0 (- (1 / 2)))
               (Complex 0 (- (1 / 2))) (Complex 1 (T - 1 / 2)))"
proof -
  let ?sol = "\<lparr>sol_success = ok,
          sol_y = map (\<lambda>(v, dv). map (\<lambda>t. v + t * dv) (take 101 (linspace 0 T (num_values + 1))))
                    (zip [1, 0, 0, 1, 0, 0, 0, 0]
                       [0, 0, 0, 0, - (1 - 1 / (2 * T)), - (1 / (2 * T)), - (1 / (2 * T)),
                        1 - 1 / (2 * T)])\<rparr>"
  have n: "num_values + 1 = 101" "num_values < 101" by (simp_all add: num_values_def)
  have flat: "matrix_to_flat (Mat2 1 0 0 1) = [1, 0, 0, 1, 0, 0, 0, 0]"
    by (simp add: matrix_to_flat_def complex_to_real_imag_def)
  have y: "sol_y ?sol = map (\<lambda>(v, dv). map (\<lambda>t. v + t * dv) (take 101 (linspace 0 T (num_values + 1))))
                    (zip [1, 0, 0, 1, 0, 0, 0, 0]
                       [0, 0, 0, 0, - (1 - 1 / (2 * T)), - (1 / (2 * T)), - (1 / (2 * T)),
                        1 - 1 / (2 * T)])"
    by simp
  have "integrate_one (one_step_solver ok 101) (Mat2 1 0 0 (- 1)) (Mat2 0 1 1 0) (Mat2 1 0 0 1) T =
      terminal_matrix ?sol"
    unfolding integrate_one_def flat one_step_solver_def example_rhs_spec [OF assms] n
    by (simp add: bind_result_simps)
  also have "\<dots> = Inr (column_matrix ?sol num_values)"
    using example_column(1) [OF y] n by (intro terminal_matrix_Inr) simp
  also have "column_matrix ?sol num_values =
      Mat2 (Complex 1 (- (T - 1 / 2))) (Complex 0 (- (1 / 2)))
               (Complex 0 (- (1 / 2))) (Complex 1 (T - 1 / 2))"
    unfolding example_column(2) [OF y n(2)] using assms by (simp add: field_simps)
  finally show ?thesis .
qed

text \<open>
  The sweep of the concrete scenario over the total times 1 and 2, and the analysis run on
  the state it leaves.
\<close>

theorem sweep_is_pure_map_witness:
  "0 \<notin> set (glob_T_list example_globals) \<and>
   pure_sweep (one_step_solver True 101) (Mat2 1 0 0 (- 1)) (Mat2 0 1 1 0) (Mat2 1 0 0 1) [1, 2] =
     Inr [Mat2 (Complex 1 (- (1 / 2))) (Complex 0 (- (1 / 2)))
               (Complex 0 (- (1 / 2))) (Complex 1 (1 / 2)),
          Mat2 (Complex 1 (- (3 / 2))) (Complex 0 (- (1 / 2)))
               (Complex 0 (- (1 / 2))) (Complex 1 (3 / 2))] \<and>
   sweep_cell (one_step_solver True 101) example_globals =
     Inr (example_globals\<lparr>glob_U_A_flat := [1, 0, 0, 1, 0, 0, 0, 0], glob_T := Some 2,
            glob_U_T_list := [Mat2 (Complex 1 (- (1 / 2))) (Complex 0 (- (1 / 2)))
                                   (Complex 0 (- (1 / 2))) (Complex 1 (1 / 2)),
                              Mat2 (Complex 1 (- (3 / 2))) (Complex 0 (- (1 / 2)))
                                   (Complex 0 (- (1 / 2))) (Complex 1 (3 / 2))]\<rparr>) \<and>
   map_sum id (\<lambda>g. (glob_A g, glob_B g, glob_U_A g, glob_U_T_list g))
     (analysis_cell
        (example_globals\<lparr>glob_U_A_flat := [1, 0, 0, 1, 0, 0, 0, 0], glob_T := Some 2,
            glob_U_T_list := [Mat2 (Complex 1 (- (1 / 2))) (Complex 0 (- (1 / 2)))
                                   (Complex 0 (- (1 / 2))) (Complex 1 (1 / 2)),
                              Mat2 (Complex 1 (- (3 / 2))) (Complex 0 (- (1 / 2)))
                                   (Complex 0 (- (1 / 2))) (Complex 1 (3 / 2))]\<rparr>)) =
     Inr (Mat2 1 0 0 (- 1), Mat2 0 1 1 0, Mat2 1 0 0 1,
          [Mat2 (Complex 1 (- (1 / 2))) (Complex 0 (- (1 / 2)))
                (Complex 0 (- (1 / 2))) (Complex 1 (1 / 2)),
           Mat2 (Complex 1 (- (3 / 2))) (Complex 0 (- (1 / 2)))
                (Complex 0 (- (1 / 2))) (Complex 1 (3 / 2))])"
proof -
  let ?U1 = "Mat2 (Complex 1 (- (1 / 2))) (Complex 0 (- (1 / 2)))
                  (Complex 0 (- (1 / 2))) (Complex 1 (1 / 2))"
  let ?U2 = "Mat2 (Complex 1 (- (3 / 2))) (Complex 0 (- (1 / 2)))
                  (Complex 0 (- (1 / 2))) (Complex 1 (3 / 2))"
  let ?s = "one_step_solver True 101"
  let ?A = "Mat2 1 0 0 (- 1) :: complex mat2" and ?B = "Mat2 0 1 1 0 :: complex mat2"
  let ?I = "Mat2 1 0 0 1 :: complex mat2"
  let ?post = "example_globals\<lparr>glob_U_A_flat := [1, 0, 0, 1, 0, 0, 0, 0], glob_T := Some 2,
            glob_U_T_list := [?U1, ?U2]\<rparr>"
  have h: "0 \<notin> set (glob_T_list example_globals)"
    by (simp add: example_globals_def)
  have i1: "integrate_one ?s ?A ?B ?I 1 = Inr ?U1" and i2: "integrate_one ?s ?A ?B ?I 2 = Inr ?U2"
    by (simp_all add: example_integrate_one)
  note inst = sweep_is_pure_map [OF h, where solve_ivp = ?s and A = ?A and B = ?B and U_A = ?I
      and Ts = "[1, 2]" and Us = "[?U1, ?U2]"]
  from inst i1 i2 have p: "pure_sweep ?s ?A ?B ?I [1, 2] = Inr [?U1, ?U2]"
    by (simp add: all_less_Suc_shift numeral_2_eq_2)
  have fields: "glob_A example_globals = ?A" "glob_B example_globals = ?B"
    "glob_U_A example_globals = ?I" "glob_T_list example_globals = [1, 2]"
    "glob_U_T_list example_globals = []"
    by (simp_all add: example_globals_def)
  have flat: "matrix_to_flat ?I = [1, 0, 0, 1, 0, 0, 0, 0]"
    by (simp add: matrix_to_flat_def complex_to_real_imag_def)
  from inst have c: "sweep_cell ?s example_globals = Inr ?post"
    unfolding fields p flat by (simp add: bind_result_simps)
  have h': "0 \<notin> set (glob_T_list ?post)"
    by (simp add: example_globals_def)
  obtain g' where a: "analysis_cell ?post = Inr g'"
    unfolding analysis_cell_result by (simp add: example_globals_def)
  from sweep_is_pure_map [OF h', where g' = g'] a
  have "glob_A g' = ?A" "glob_B g' = ?B" "glob_U_A g' = ?I" "glob_U_T_list g' = [?U1, ?U2]"
    by (simp_all add: example_globals_def)
  with a have "map_sum id (\<lambda>g. (glob_A g, glob_B g, glob_U_A g, glob_U_T_list g))
     (analysis_cell ?post) = Inr (?A, ?B, ?I, [?U1, ?U2])"
    by simp
  with h p c show ?thesis by blast
qed

text \<open>
  Claim C4. For each swept total time the analysis computes the rotated matrix
  \<open>U(T)\<^sup>\<dagger> B U(T)\<close>, the conjugate transpose being the left factor, and reports the
  magnitude of its entry (0, 1); that entry is the sum over \<open>k\<close> and \<open>l\<close> of
  \<open>conj(U\<^sub>k\<^sub>0) B\<^sub>k\<^sub>l U\<^sub>l\<^sub>1\<close>. The analysis raises IndexError when \<open>U_T_list\<close> is shorter than
  \<open>T_list\<close>. In the notebook as a whole that does not happen: when the sweep succeeds the
  final state holds, for the terminal matrices of the 18 total times in order, their
  rotated matrices and their deviations.
\<close>

theorem deviation_analysis:
  "analysis_cell g =
     (if length (glob_T_list g) \<le> length (glob_U_T_list g) then
        Inr (g\<lparr>glob_T := (if glob_T_list g = [] then glob_T g else Some (last (glob_T_list g))),
               glob_approx_B_diag_list :=
                 map (rotated (glob_B g)) (take (length (glob_T_list g)) (glob_U_T_list g)),
               glob_off_diag_elements_of_approx_B_list :=
                 map (deviation (glob_B g)) (take (length (glob_T_list g)) (glob_U_T_list g))\<rparr>)
      else Inl IndexError) \<and>
   rotated B U = matmul (matmul (dagger U) B) U \<and>
   deviation B U = cmod (entry (rotated B U) 0 1) \<and>
   entry (rotated B U) 0 1 = (\<Sum>k<2. \<Sum>l<2. cnj (entry U k 0) * entry B k l * entry U l 1) \<and>
   notebook solve_ivp eigh_vectors re_A im_A re_B im_B =
     bind_result
       (pure_sweep solve_ivp (sample_hermitian_matrix re_A im_A) (sample_hermitian_matrix re_B im_B)
          (eigh_vectors (sample_hermitian_matrix re_A im_A)) T_list)
       (\<lambda>Us. Inr \<lparr>glob_A = sample_hermitian_matrix re_A im_A,
                   glob_B = sample_hermitian_matrix re_B im_B,
                   glob_U_A = eigh_vectors (sample_hermitian_matrix re_A im_A),
                   glob_T = Some (last T_list), glob_T_list = T_list, glob_U_T_list = Us,
                   glob_U_A_flat = matrix_to_flat (eigh_vectors (sample_hermitian_matrix re_A im_A)),
                   glob_approx_B_diag_list = map (rotated (sample_hermitian_matrix re_B im_B)) Us,
                   glob_off_diag_elements_of_approx_B_list =
                     map (deviation (sample_hermitian_matrix re_B im_B)) Us\<rparr>)"
proof -
  have "rotated B U = matmul (matmul (dagger U) B) U" and "deviation B U = cmod (entry (rotated B U) 0 1)"
    by (simp_all add: rotated_def deviation_def)
  with analysis_cell_result [of g] entry_rotated_01 [of B U]
    notebook_result [of solve_ivp eigh_vectors re_A im_A re_B im_B]
  show ?thesis by blast
qed

text \<open>
  The analysis of the concrete scenario for the terminal matrices \<open>[[1, 0], [0, 1]]\<close> and
  \<open>[[1, 1], [1, -1]]\<close>: the deviations are 1 and 0.
\<close>

theorem deviation_analysis_witness:
  "analysis_cell (example_globals\<lparr>glob_U_T_list := [Mat2 1 0 0 1, Mat2 1 1 1 (- 1)]\<rparr>) =
     Inr (example_globals\<lparr>glob_U_T_list := [Mat2 1 0 0 1, Mat2 1 1 1 (- 1)], glob_T := Some 2,
            glob_approx_B_diag_list := [Mat2 0 1 1 0, Mat2 2 0 0 (- 2)],
            glob_off_diag_elements_of_approx_B_list := [1, 0]\<rparr>)"
proof -
  let ?g = "example_globals\<lparr>glob_U_T_list := [Mat2 1 0 0 1, Mat2 1 1 1 (- 1)]\<rparr>"
  have r: "rotated (Mat2 0 1 1 0) (Mat2 1 0 0 1) = Mat2 0 1 1 0"
    "rotated (Mat2 0 1 1 0) (Mat2 1 1 1 (- 1)) = Mat2 2 0 0 (- 2)"
    using deviation_analysis [of ?g "Mat2 0 1 1 0" "Mat2 1 0 0 1"]
      deviation_analysis [of ?g "Mat2 0 1 1 0" "Mat2 1 1 1 (- 1)"]
    by simp_all
  then have d: "deviation (Mat2 0 1 1 0) (Mat2 1 0 0 1) = 1"
    "deviation (Mat2 0 1 1 0) (Mat2 1 1 1 (- 1)) = 0"
    using deviation_analysis [of ?g "Mat2 0 1 1 0" "Mat2 1 0 0 1"]
      deviation_analysis [of ?g "Mat2 0 1 1 0" "Mat2 1 1 1 (- 1)"]
    by simp_all
  have f: "glob_T_list ?g = [1, 2]" "glob_B ?g = Mat2 0 1 1 0"
    "glob_U_T_list ?g = [Mat2 1 0 0 1, Mat2 1 1 1 (- 1)]"
    by (simp_all add: example_globals_def)
  from deviation_analysis [of ?g] show ?thesis
    unfolding f by (simp add: r d)
qed

text \<open>
  Claim C9, as amended. The sweep uses the 18 total times \<open>10 ^ (-1 + 0.25 j)\<close> for
  \<open>j = 0, ..., 17\<close>, from 0.1 to about 1778. Each trajectory requests a grid of 101 equally
  spaced points from \<open>0\<close> to \<open>T\<close>, the point of index \<open>num_values = 100\<close> being the last and
  equal to \<open>T\<close>. The terminal matrix is read from column \<open>num_values\<close> of the solution and
  decoded to a 2 x 2 complex matrix.
\<close>

theorem sweep_configuration:
  "glob_T_list (startup eigh_vectors re_A im_A re_B im_B) = T_list \<and>
   length T_list = 18 \<and>
   (\<forall>j<18. T_list ! j = 10 powr (- 1 + 0.25 * real j)) \<and>
   hd T_list = 1 / 10 \<and> 1778 < last T_list \<and> last T_list < 1779 \<and>
   length (linspace 0 T (num_values + 1)) = 101 \<and>
   (\<forall>i<101. linspace 0 T (num_values + 1) ! i = real i * (T / 100)) \<and>
   linspace 0 T (num_values + 1) ! num_values = T \<and>
   last (linspace 0 T (num_values + 1)) = T \<and>
   sweep_body solve_ivp g T =
     bind_result
       (solve_ivp (sweep_rhs (g\<lparr>glob_T := Some T\<rparr>)) (0, T) (glob_U_A_flat g)
          (linspace 0 T (num_values + 1)))
       (\<lambda>solution. bind_result (terminal_matrix solution)
          (\<lambda>U_T. Inr (g\<lparr>glob_T := Some T, glob_U_T_list := glob_U_T_list g @ [U_T]\<rparr>))) \<and>
   (has_column solution num_values \<longrightarrow>
      terminal_matrix solution = Inr (column_matrix solution num_values) \<and>
      flat_to_matrix (map (\<lambda>i. sol_y solution ! i ! num_values) [0..<8]) =
        Inr (column_matrix solution num_values))"
proof -
  have 1: "glob_T_list (startup eigh_vectors re_A im_A re_B im_B) = T_list"
    by (simp add: startup_def Let_def)
  have 2: "\<forall>j<18. T_list ! j = 10 powr (- 1 + 0.25 * real j)"
    using nth_T_list by blast
  have 3: "length (linspace 0 T (num_values + 1)) = 101"
    by (simp add: length_linspace num_values_def)
  have 4: "\<forall>i<101. linspace 0 T (num_values + 1) ! i = real i * (T / 100)"
    by (simp add: nth_linspace num_values_def)
  have 5: "linspace 0 T (num_values + 1) ! num_values = T"
    by (simp add: nth_linspace num_values_def)
  have 6: "last (linspace 0 T (num_values + 1)) = T"
    using 5 by (simp add: last_conv_nth length_linspace linspace_def[THEN arg_cong, of "\<lambda>x. x = []"])
  have 7: "sweep_body solve_ivp g T =
     bind_result
       (solve_ivp (sweep_rhs (g\<lparr>glob_T := Some T\<rparr>)) (0, T) (glob_U_A_flat g)
          (linspace 0 T (num_values + 1)))
       (\<lambda>solution. bind_result (terminal_matrix solution)
          (\<lambda>U_T. Inr (g\<lparr>glob_T := Some T, glob_U_T_list := glob_U_T_list g @ [U_T]\<rparr>)))"
    by (simp add: sweep_body_def Let_def)
  have 8: "flat_to_matrix (map (\<lambda>i. sol_y solution ! i ! num_values) [0..<8]) =
        Inr (column_matrix solution num_values)"
    unfolding upt8 by (simp add: flat_to_matrix_def decode_8 column_matrix_def Let_def)
  from 1 2 3 4 5 6 7 8 length_T_list hd_T_list last_T_list_bounds terminal_matrix_Inr [of solution]
  show ?thesis by blast
qed

text \<open>
  The total time of index 15, the midpoint of the grid for \<open>T = 2\<close>, and the terminal
  matrix of a solution whose entries are all 1.
\<close>

theorem sweep_configuration_witness:
  "T_list ! 15 = 10 powr (11 / 4) \<and>
   linspace 0 2 (num_values + 1) ! 50 = 1 \<and>
   terminal_matrix \<lparr>sol_success = True, sol_y = replicate 8 (replicate 101 1)\<rparr> = Inr (Mat2 (Complex 1 1) (Complex 1 1) (Complex 1 1) (Complex 1 1))"
proof -
  let ?sol = "\<lparr>sol_success = True, sol_y = replicate 8 (replicate 101 1)\<rparr>"
  have hc: "has_column ?sol num_values"
    by (simp add: has_column_iff num_values_def)
  have col: "column_matrix ?sol num_values = Mat2 (Complex 1 1) (Complex 1 1) (Complex 1 1) (Complex 1 1)"
    by (simp add: column_matrix_def num_values_def)
  note inst = sweep_configuration [where T = 2 and solution = ?sol and g = example_globals
      and solve_ivp = "one_step_solver True 101" and eigh_vectors = id
      and re_A = "Mat2 0 0 0 0" and im_A = "Mat2 0 0 0 0"
      and re_B = "Mat2 0 0 0 0" and im_B = "Mat2 0 0 0 0"]
  from inst have "\<forall>j<18. T_list ! j = 10 powr (- 1 + 0.25 * real j)" by blast
  then have "(15::nat) < 18 \<longrightarrow> T_list ! 15 = 10 powr (- 1 + 0.25 * real 15)"
    by (rule spec)
  then have 1: "T_list ! 15 = 10 powr (11 / 4)" by simp
  from inst have "\<forall>i<101. linspace 0 2 (num_values + 1) ! i = real i * (2 / 100)" by blast
  then have "(50::nat) < 101 \<longrightarrow> linspace 0 2 (num_values + 1) ! 50 = real 50 * (2 / 100)"
    by (rule spec)
  then have 2: "linspace 0 2 (num_values + 1) ! 50 = 1" by simp
  from inst hc have 3: "terminal_matrix ?sol = Inr (Mat2 (Complex 1 1) (Complex 1 1) (Complex 1 1) (Complex 1 1))"
    unfolding col by blast
  from 1 2 3 show ?thesis by blast
qed

text \<open>
  Claim C9 as stated fails in its range: the last total time exceeds 1778; about 562 is
  the total time of index 15.
\<close>

theorem sweep_upper_end_counterexample:
  "\<not> last T_list \<le> 563 \<and> 1778 < T_list ! 17 \<and> 562 < T_list ! 15 \<and> T_list ! 15 < 563"
proof -
  have "T_list ! 17 = last T_list"
    by (simp add: last_T_list nth_T_list)
  with last_T_list_bounds T_list_15_bounds show ?thesis
    by simp
qed

end
